theory Spec2Isabelle
  imports Main "HOL-Library.Char_ord" "HOL-Library.List_Lexorder"
    "HOL-Library.Mapping" "HOL-Library.AList_Mapping" "HOL-Library.Sublist"
begin

text \<open>
  The tile definitions generator \<^verbatim>\<open>types_generator.go\<close>: it reads a text of tile
  definitions, one per line (a symbol, a name and any number of properties), and writes
  a Go source file with the constants and lookup tables, and a Markdown table. The
  theory embeds the parser, the assembly of the bitmask expressions, the two templates
  and the main function with its file operations, together with the functions of the Go
  library they call, and proves what the specification says about them.
\<close>

section \<open>Strings\<close>

text \<open>
  A Go string is a sequence of bytes; \<^typ>\<open>string\<close> is a list of 8-bit characters.
  Go compares strings byte by byte, a proper prefix being smaller: the lexicographic
  order on lists over the order of \<^typ>\<open>char\<close> by byte value.
\<close>

definition sp :: char where "sp = CHR 0x20"
definition tab :: char where "tab = CHR 0x09"
definition nl :: char where "nl = CHR 0x0A"
definition cr :: char where "cr = CHR 0x0D"

subsection \<open>strings.TrimSpace\<close>

text \<open>
  \<^verbatim>\<open>strings.TrimSpace\<close> removes, at both ends, every rune for which
  \<^verbatim>\<open>unicode.IsSpace\<close> holds. The string is read as UTF-8, so a white-space rune
  is one of the byte sequences below: the six ASCII ones, U+0085 and U+00A0 (two bytes),
  U+1680, U+2000 to U+200A, U+2028, U+2029, U+202F, U+205F and U+3000 (three bytes).
  A byte sequence that is not valid UTF-8 decodes to the replacement rune, which is no
  white space, and stops the trimming.
\<close>

definition spaceEncodings :: "string list" where
  "spaceEncodings =
     [[CHR 0x09], [CHR 0x0A], [CHR 0x0B], [CHR 0x0C], [CHR 0x0D], [CHR 0x20],
      [CHR 0xC2, CHR 0x85], [CHR 0xC2, CHR 0xA0],
      [CHR 0xE1, CHR 0x9A, CHR 0x80],
      [CHR 0xE2, CHR 0x80, CHR 0x80], [CHR 0xE2, CHR 0x80, CHR 0x81],
      [CHR 0xE2, CHR 0x80, CHR 0x82], [CHR 0xE2, CHR 0x80, CHR 0x83],
      [CHR 0xE2, CHR 0x80, CHR 0x84], [CHR 0xE2, CHR 0x80, CHR 0x85],
      [CHR 0xE2, CHR 0x80, CHR 0x86], [CHR 0xE2, CHR 0x80, CHR 0x87],
      [CHR 0xE2, CHR 0x80, CHR 0x88], [CHR 0xE2, CHR 0x80, CHR 0x89],
      [CHR 0xE2, CHR 0x80, CHR 0x8A],
      [CHR 0xE2, CHR 0x80, CHR 0xA8], [CHR 0xE2, CHR 0x80, CHR 0xA9],
      [CHR 0xE2, CHR 0x80, CHR 0xAF],
      [CHR 0xE2, CHR 0x81, CHR 0x9F],
      [CHR 0xE3, CHR 0x80, CHR 0x80]]"

text \<open>The number of bytes of the white-space rune that \<open>s\<close> starts with, 0 when
  it starts with none; \<open>encs\<close> lists the encodings looked for.\<close>

definition spaceWidth :: "string list \<Rightarrow> string \<Rightarrow> nat" where
  "spaceWidth encs s =
     (case find (\<lambda>e. e \<noteq> [] \<and> prefix e s) encs of None \<Rightarrow> 0 | Some e \<Rightarrow> length e)"

function trimLeft :: "string list \<Rightarrow> string \<Rightarrow> string" where
  "trimLeft encs s =
     (if spaceWidth encs s = 0 then s else trimLeft encs (drop (spaceWidth encs s) s))"
  by pat_completeness auto

lemma spaceWidth_le: "spaceWidth encs s \<le> length s"
  by (auto simp: spaceWidth_def prefix_def find_Some_iff split: option.splits)

termination trimLeft
proof (relation "measure (\<lambda>(encs, s). length s)")
  show "wf (measure (\<lambda>(encs, s). length s))" by simp
next
  fix encs :: "string list" and s :: string
  assume "spaceWidth encs s \<noteq> 0"
  moreover have "spaceWidth encs s \<le> length s" by (rule spaceWidth_le)
  ultimately show "((encs, drop (spaceWidth encs s) s), (encs, s))
      \<in> measure (\<lambda>(encs, s). length s)"
    by simp
qed

declare trimLeft.simps [simp del]

text \<open>Trimming at the end reads the runes backwards: the same search on the
  reversed string for the reversed encodings.\<close>

definition trimRight :: "string \<Rightarrow> string" where
  "trimRight s = rev (trimLeft (map rev spaceEncodings) (rev s))"

definition TrimSpace :: "string \<Rightarrow> string" where
  "TrimSpace s = trimRight (trimLeft spaceEncodings s)"

subsection \<open>strings.Split with the separator " "\<close>

text \<open>
  \<^verbatim>\<open>strings.Split(s, " ")\<close> cuts at every single space: the text before the first
  space is a field, and the rest after that space is split in turn; a string without a
  space (the empty one too) is one field.
\<close>

function Split :: "string \<Rightarrow> string list" where
  "Split s =
     (let field = takeWhile (\<lambda>c. c \<noteq> sp) s; rest = dropWhile (\<lambda>c. c \<noteq> sp) s
      in if rest = [] then [field] else field # Split (tl rest))"
  by pat_completeness auto

termination Split
proof (relation "measure length")
  show "wf (measure length)" by simp
next
  fix s field rest :: string
  assume rest: "rest = dropWhile (\<lambda>c. c \<noteq> sp) s" and ne: "rest \<noteq> []"
  have "length rest \<le> length s"
    unfolding rest by (rule length_dropWhile_le)
  moreover from ne have "length (tl rest) < length rest"
    by (cases rest) simp_all
  ultimately show "(tl rest, s) \<in> measure length"
    by simp
qed

declare Split.simps [simp del]

subsection \<open>bufio.Scanner with bufio.ScanLines\<close>

text \<open>
  The scanner cuts the input at every newline and drops one carriage return at the end
  of a line; a last line without newline is returned too, and nothing follows a final
  newline. Its buffer grows to \<^verbatim>\<open>bufio.MaxScanTokenSize\<close> bytes and no further: a
  line that does not fit there with its newline, that is one of 65536 bytes or more,
  makes \<^verbatim>\<open>Scan\<close> return false with \<^verbatim>\<open>ErrTooLong\<close>, and the loop of
  \<^verbatim>\<open>parseTileDefs\<close>, which never looks at \<^verbatim>\<open>scanner.Err()\<close>, ends there.
\<close>

definition MaxScanTokenSize :: nat where
  "MaxScanTokenSize = 64 * 1024"

definition dropCR :: "string \<Rightarrow> string" where
  "dropCR data = (if data \<noteq> [] \<and> last data = cr then butlast data else data)"

function scanLines :: "string \<Rightarrow> string list" where
  "scanLines data =
     (if data = [] then []
      else let line = takeWhile (\<lambda>c. c \<noteq> nl) data; rest = dropWhile (\<lambda>c. c \<noteq> nl) data
           in if MaxScanTokenSize \<le> length line then []
              else dropCR line # scanLines (drop 1 rest))"
  by pat_completeness auto

termination scanLines
proof (relation "measure length")
  show "wf (measure length)" by simp
next
  fix data line rest :: string
  assume ne: "data \<noteq> []" and rest: "rest = dropWhile (\<lambda>c. c \<noteq> nl) data"
  have le: "length rest \<le> length data"
    unfolding rest by (rule length_dropWhile_le)
  show "(drop 1 rest, data) \<in> measure length"
  proof (cases rest)
    case Nil
    with ne show ?thesis by simp
  next
    case (Cons c cs)
    then have "length (drop 1 rest) < length rest" by simp
    with le show ?thesis by simp
  qed
qed

declare scanLines.simps [simp del]

section \<open>The generator's data\<close>

record TileDef =
  Symbol :: string
  Name :: string
  Properties :: "string list"

record TileGen =
  Timestamp :: string
  Definitions :: "TileDef list"
  PropertyNameSet :: "(string, bool) mapping"
  DefaultProperties :: string

text \<open>The package variable \<^verbatim>\<open>tilegen\<close> as the program starts: an empty map, the
  other fields at their zero values.\<close>

definition tilegen :: TileGen where
  "tilegen = \<lparr>Timestamp = [], Definitions = [], PropertyNameSet = Mapping.empty,
     DefaultProperties = []\<rparr>"

section \<open>capitilizeFirstLetter\<close>

text \<open>
  \<^verbatim>\<open>strings.ToUpper\<close> applied to the one-byte string \<^verbatim>\<open>s[0:1]\<close>. An ASCII byte
  is mapped by the ASCII rule. A byte from 0x80 on is not valid UTF-8 by itself (it is
  the first byte of a longer rune, cut off by the slice): \<^verbatim>\<open>ToUpper\<close> goes through
  \<^verbatim>\<open>strings.Map\<close>, which writes the replacement rune U+FFFD, three bytes, for it.
\<close>

definition ToUpperByte :: "char \<Rightarrow> string" where
  "ToUpperByte c =
     (if (of_char c :: nat) < 128
      then (if CHR ''a'' \<le> c \<and> c \<le> CHR ''z''
            then [char_of ((of_char c :: nat) - 32)] else [c])
      else [CHR 0xEF, CHR 0xBF, CHR 0xBD])"

fun capitilizeFirstLetter :: "string \<Rightarrow> string" where
  "capitilizeFirstLetter [] = []"
| "capitilizeFirstLetter (c # cs) = ToUpperByte c @ cs"

section \<open>parseTileDefs\<close>

text \<open>The loop over \<^verbatim>\<open>arr[2:]\<close>: each token is capitalised, appended to the
  property list and stored as a key of the map.\<close>

fun addProperties ::
  "string list \<Rightarrow> string list \<times> (string, bool) mapping
     \<Rightarrow> string list \<times> (string, bool) mapping" where
  "addProperties [] (proplist, pset) = (proplist, pset)"
| "addProperties (v # vs) (proplist, pset) =
     (let prop = capitilizeFirstLetter v
      in addProperties vs (proplist @ [prop], Mapping.update prop True pset))"

text \<open>One round of the scanning loop, on the line the scanner returned.\<close>

definition parseLine :: "TileGen \<Rightarrow> string \<Rightarrow> TileGen" where
  "parseLine tg text =
     (let line = TrimSpace text
      in if line = [] then tg
         else let arr = Split line
              in if length arr < 2 then tg
                 else let symbol = arr ! 0;
                          name = capitilizeFirstLetter (arr ! 1);
                          (proplist, pset) =
                            (if length arr = 2 then ([], PropertyNameSet tg)
                             else addProperties (drop 2 arr) ([], PropertyNameSet tg));
                          tile = \<lparr>Symbol = symbol, Name = name, Properties = proplist\<rparr>
                      in tg\<lparr>Definitions := Definitions tg @ [tile],
                            PropertyNameSet := pset\<rparr>)"

definition parseTileDefs :: "string \<Rightarrow> TileGen \<Rightarrow> TileGen" where
  "parseTileDefs s tg = foldl parseLine tg (scanLines s)"


section \<open>stringifyPropertyList\<close>

text \<open>One round of the loop over \<^verbatim>\<open>tg.Definitions\<close>: what it appends to \<open>s\<close>
  for one tile. The slice \<^verbatim>\<open>list[:len(list)-1]\<close> and the element
  \<^verbatim>\<open>list[len(list)-1]\<close> are read only where the list has two elements or more.\<close>

definition stringifyTile :: "string \<Rightarrow> TileDef \<Rightarrow> string" where
  "stringifyTile s tile =
     (let list = Properties tile;
          s = s @ [tab] @ Name tile @ '': ''
      in if length list = 0 then s @ ''0,'' @ [nl]
         else if length list = 1 then s @ list ! 0 @ '','' @ [nl]
         else let arr = take (length list - 1) list;
                  lst = list ! (length list - 1);
                  s = foldl (\<lambda>s v. s @ v @ '' | '') s arr
              in s @ lst @ '','' @ [nl])"

definition stringifyPropertyList :: "TileGen \<Rightarrow> TileGen" where
  "stringifyPropertyList tg = tg\<lparr>DefaultProperties := foldl stringifyTile [] (Definitions tg)\<rparr>"

section \<open>The templates\<close>

text \<open>
  A parsed template, executed on the generator's data, is a function from the data to
  the text written. \<^verbatim>\<open>text/template\<close> copies the text between the actions as it
  is, prints a string field without escaping, runs the body of
  \<^verbatim>\<open>range\<close> once per element of a slice, in order, and over a map visits the keys
  in sorted order. Both templates are constants that parse, so
  \<^verbatim>\<open>template.Must\<close> never panics.
\<close>

definition dq :: char where "dq = CHR 0x22"

definition ReadmeTemplate :: "TileGen \<Rightarrow> string" where
  "ReadmeTemplate tg =
     [nl]
     @ ''Tile Types Definitions'' @ [nl]
     @ ''----------------------------------------------------------------------'' @ [nl]
     @ '' '' @ [nl]
     @ ''Time Generated |'' @ [nl]
     @ ''---------------|'' @ [nl]
     @ Timestamp tg @ '' |'' @ [nl]
     @ [nl]
     @ ''This defintion table is generated from tile_types.txt.  Each symbol'' @ [nl]
     @ ''corresponds to the Name, which becomes a constant in types.go.  Since'' @ [nl]
     @ ''the following symbols have been defined, they can be used in grid.txt'' @ [nl]
     @ ''to create game worlds!'' @ [nl]
     @ '' '' @ [nl]
     @ ''| Symbol | Name | Default Properties  |'' @ [nl]
     @ ''|:------:|------|---------------------|'' @ [nl]
     @ concat (map (\<lambda>tile.
          ''| '' @ Symbol tile @ '' | '' @ Name tile @ '' | ''
          @ concat (map (\<lambda>p. '' '' @ p @ '','') (Properties tile))
          @ '' |'' @ [nl]) (Definitions tg))
     @ [nl]
     @ [nl]"

definition CodeTemplate :: "TileGen \<Rightarrow> string" where
  "CodeTemplate tg =
     [nl]
     @ ''// Code generated by types_generator.go - DO NOT EDIT.'' @ [nl]
     @ [nl]
     @ ''package somepkg'' @ [nl]
     @ [nl]
     @ ''const ('' @ [nl]
     @ [tab] @ ''_ Kind = iota'' @ [nl]
     @ [tab]
     @ concat (map (\<lambda>tile. Name tile @ [nl, tab]) (Definitions tg))
     @ [nl]
     @ '')'' @ [nl]
     @ [nl]
     @ ''const ('' @ [nl]
     @ [tab] @ ''_ Property = (1 << iota) >> 1'' @ [nl]
     @ [tab]
     @ concat (map (\<lambda>name. name @ [nl, tab]) (Mapping.ordered_keys (PropertyNameSet tg)))
     @ [nl]
     @ '')'' @ [nl]
     @ [nl]
     @ ''var DefaultProperty = map[Kind]Property {'' @ [nl]
     @ DefaultProperties tg
     @ [nl]
     @ ''}'' @ [nl]
     @ [nl]
     @ ''var SymbolToKind = map[string]Kind {'' @ [nl]
     @ [tab]
     @ concat (map (\<lambda>tile. [dq] @ Symbol tile @ [dq] @ '': '' @ Name tile @ '','' @ [nl, tab])
         (Definitions tg))
     @ [nl]
     @ ''}'' @ [nl]"

section \<open>The constants the generated source declares\<close>

text \<open>
  What the Go compiler makes of the two const declarations that \<^verbatim>\<open>CodeTemplate\<close>
  prints. Each block starts with the blank identifier and an expression over
  \<^verbatim>\<open>iota\<close>; the template then prints one name per line.

  \<^item> A line of white space only (an empty name, or one of tabs and carriage returns)
    declares nothing and takes no \<^verbatim>\<open>iota\<close>.
  \<^item> A line that is an identifier is a constant that repeats the expression of the
    first line, with \<^verbatim>\<open>iota\<close> the number of constants before it in the block.
  \<^item> The expressions hold untyped constants only, so they are evaluated exactly, and
    the result is converted to the type \<^verbatim>\<open>Kind\<close> or \<^verbatim>\<open>Property\<close>, both
    \<^verbatim>\<open>int\<close>: a value that does not fit the \<open>bits\<close> of an \<^verbatim>\<open>int\<close> (32 or 64,
    by platform) is refused by the compiler, it does not wrap.
  \<^item> An identifier other than the blank one may be declared once in the package: a
    name that occurs twice in the two blocks, or is one of the other names of the
    file at package level, is refused.

  The identifiers read here are those over ASCII letters, digits and the underscore
  whose first character is an upper-case letter or the underscore: the parser never
  yields a name that starts with a lower-case ASCII letter, so neither keywords nor
  predeclared identifiers come up. For any other line that is not blank (a letter beyond
  ASCII, a comment, an operator) the block is left unread: Go may refuse it or read it as
  something else than one constant, and nothing is said about it. The two tables of
  the file, whose entries name these constants, are not read either: the result says
  what the two declarations give in a package that compiles otherwise.
\<close>

definition goBlank :: "string \<Rightarrow> bool" where
  "goBlank l = list_all (\<lambda>c. c = sp \<or> c = tab \<or> c = cr \<or> c = nl) l"

definition goLetter :: "char \<Rightarrow> bool" where
  "goLetter c = ((CHR ''a'' \<le> c \<and> c \<le> CHR ''z'') \<or> (CHR ''A'' \<le> c \<and> c \<le> CHR ''Z'')
     \<or> c = CHR ''_'')"

definition goDigit :: "char \<Rightarrow> bool" where
  "goDigit c = (CHR ''0'' \<le> c \<and> c \<le> CHR ''9'')"

definition goName :: "string \<Rightarrow> bool" where
  "goName n =
     (case n of
        [] \<Rightarrow> False
      | c # cs \<Rightarrow> ((CHR ''A'' \<le> c \<and> c \<le> CHR ''Z'') \<or> c = CHR ''_'')
          \<and> list_all (\<lambda>d. goLetter d \<or> goDigit d) cs)"

text \<open>The constants of one block with their values, were every value to fit: the lines
  that are not blank, each with the expression at its \<^verbatim>\<open>iota\<close>.\<close>

definition constBlock :: "(nat \<Rightarrow> int) \<Rightarrow> string list \<Rightarrow> (string \<times> int) list" where
  "constBlock expr names =
     map (\<lambda>(iota, name). (name, expr iota)) (enumerate 0 (filter (\<lambda>n. \<not> goBlank n) names))"

definition fitsInt :: "nat \<Rightarrow> int \<Rightarrow> bool" where
  "fitsInt bits v = (- (2 ^ (bits - 1)) \<le> v \<and> v < 2 ^ (bits - 1))"

text \<open>The other names of the generated file at package level: the two types, which the
  package declares in another file, and the two tables.\<close>

definition packageNames :: "string list" where
  "packageNames = [''Kind'', ''Property'', ''DefaultProperty'', ''SymbolToKind'']"

datatype declarations =
  Declares "(string \<times> int) list" "(string \<times> int) list"
| Refused
| Unread

text \<open>The block \<^verbatim>\<open>_ Kind = iota\<close> with the names of the definitions, the block
  \<^verbatim>\<open>_ Property = (1 << iota) >> 1\<close> with the keys of the property set in sorted
  order, and what the compiler makes of them for an \<^verbatim>\<open>int\<close> of \<open>bits\<close> bits.\<close>

definition constDeclarations :: "nat \<Rightarrow> TileGen \<Rightarrow> declarations" where
  "constDeclarations bits tg =
     (let kinds = constBlock (\<lambda>iota. int iota) (''_'' # map Name (Definitions tg));
          flags = constBlock (\<lambda>iota. drop_bit 1 (push_bit iota 1))
                    (''_'' # Mapping.ordered_keys (PropertyNameSet tg));
          names = map fst (kinds @ flags)
      in if \<not> list_all goName names then Unread
         else if \<not> distinct (filter (\<lambda>n. n \<noteq> ''_'') names @ packageNames) then Refused
         else if \<not> list_all (\<lambda>(n, v). fitsInt bits v) (kinds @ flags) then Refused
         else Declares kinds flags)"

section \<open>Files and the main function\<close>

text \<open>
  The program reads one file and writes two. The world it runs in: the contents of the
  files by path, and what \<^verbatim>\<open>log.Fatal\<close> has written to the standard error stream.
  The environment says what the clock shows and which operations fail: reading or
  opening a path, truncating it, and after how many bytes a write to it stops
  (\<open>None\<close>: it does not).
\<close>

datatype error = ReadFileError string | OpenFileError string

record World =
  files :: "string \<rightharpoonup> string"
  stderr :: "error list"

record Env =
  now :: string
  readFails :: "string \<Rightarrow> bool"
  openFails :: "string \<Rightarrow> bool"
  truncateFails :: "string \<Rightarrow> bool"
  writeStops :: "string \<Rightarrow> nat option"

text \<open>A function either returns, or \<^verbatim>\<open>log.Fatal\<close> has ended the process.\<close>

datatype 'a outcome = Returns 'a World | Fatal World

definition filenameTileTypes :: string where "filenameTileTypes = ''src/types.txt''"
definition filenameGrid :: string where "filenameGrid = ''src/grid.txt''"
definition filenameCodeOutput :: string where "filenameCodeOutput = ''types.go''"
definition filenameReadme :: string where "filenameReadme = ''readme.md''"

definition processTileTypesFile :: "Env \<Rightarrow> TileGen \<Rightarrow> World \<Rightarrow> TileGen outcome" where
  "processTileTypesFile env tg w =
     (case (if readFails env filenameTileTypes then None else files w filenameTileTypes) of
        None \<Rightarrow> Fatal (w\<lparr>stderr := stderr w @ [ReadFileError filenameTileTypes]\<rparr>)
      | Some b \<Rightarrow> Returns (parseTileDefs b tg) w)"

text \<open>
  \<^verbatim>\<open>makeTheFile\<close>: the file is opened without \<^verbatim>\<open>O_TRUNC\<close> (created empty when
  it is not there), and only the error of \<^verbatim>\<open>os.OpenFile\<close> is looked at. The results
  of \<^verbatim>\<open>os.Truncate\<close> and of \<^verbatim>\<open>t.Execute\<close> are dropped: when truncating fails the
  old contents stay, and the template's output is written over them from offset 0, as far
  as the write gets.
\<close>

definition makeTheFile ::
  "Env \<Rightarrow> (TileGen \<Rightarrow> string) \<Rightarrow> string \<Rightarrow> TileGen \<Rightarrow> World \<Rightarrow> unit outcome" where
  "makeTheFile env templ filename tg w =
     (if openFails env filename
      then Fatal (w\<lparr>stderr := stderr w @ [OpenFileError filename]\<rparr>)
      else let old = (case files w filename of None \<Rightarrow> [] | Some c \<Rightarrow> c);
               kept = (if truncateFails env filename then old else []);
               text = templ tg;
               written = (case writeStops env filename of None \<Rightarrow> text | Some n \<Rightarrow> take n text)
           in Returns () (w\<lparr>files := (files w)(filename \<mapsto> written @ drop (length written) kept)\<rparr>))"

definition main :: "Env \<Rightarrow> World \<Rightarrow> unit outcome" where
  "main env w =
     (let tg = tilegen\<lparr>Timestamp := now env\<rparr>
      in case processTileTypesFile env tg w of
           Fatal w \<Rightarrow> Fatal w
         | Returns tg w \<Rightarrow>
             (let tg = stringifyPropertyList tg
              in case makeTheFile env ReadmeTemplate filenameReadme tg w of
                   Fatal w \<Rightarrow> Fatal w
                 | Returns u w \<Rightarrow> makeTheFile env CodeTemplate filenameCodeOutput tg w))"

section \<open>The notions of the specification\<close>





text \<open>A line qualifies when, trimmed, it is not empty and splits at single spaces into
  two fields or more.\<close>

definition qualifies :: "string \<Rightarrow> bool" where
  "qualifies text = (TrimSpace text \<noteq> [] \<and> 2 \<le> length (Split (TrimSpace text)))"

text \<open>The record of a qualifying line: field 0 is the Symbol as written, field 1 with
  its first letter capitalised is the Name, and the fields after it, each capitalised the
  same way, are the Properties in their order.\<close>

definition recordOf :: "string \<Rightarrow> TileDef" where
  "recordOf text =
     (let arr = Split (TrimSpace text)
      in \<lparr>Symbol = arr ! 0, Name = capitilizeFirstLetter (arr ! 1),
          Properties = map capitilizeFirstLetter (drop 2 arr)\<rparr>)"


text \<open>The bitmask expression of a property list, in the words of the specification:
  the zero literal for no property, the name alone for one, and otherwise the names in
  their order with the combinator between two neighbours.\<close>

fun bitmaskExpr :: "string list \<Rightarrow> string" where
  "bitmaskExpr [] = ''0''"
| "bitmaskExpr [p] = p"
| "bitmaskExpr (p # q # ps) = p @ '' | '' @ bitmaskExpr (q # ps)"

text \<open>The five lines of the specification's round-trip scenario, each ended by a
  newline, and the generator's data after parsing them and assembling the
  bitmasks.\<close>

definition roundTripInput :: string where
  "roundTripInput =
     ''g Grass burns'' @ [nl] @ ''d Dirt'' @ [nl] @ ''b Bush burns'' @ [nl]
     @ ''t Tree burns nowalk'' @ [nl] @ ''w Water nowalk'' @ [nl]"

definition roundTripModel :: TileGen where
  "roundTripModel = stringifyPropertyList (parseTileDefs roundTripInput tilegen)"



text \<open>A run in which no operation on the three files fails.\<close>

definition ioSucceeds :: "Env \<Rightarrow> bool" where
  "ioSucceeds env =
     (\<not> readFails env filenameTileTypes
      \<and> \<not> openFails env filenameReadme \<and> \<not> truncateFails env filenameReadme
      \<and> writeStops env filenameReadme = None
      \<and> \<not> openFails env filenameCodeOutput \<and> \<not> truncateFails env filenameCodeOutput
      \<and> writeStops env filenameCodeOutput = None)"

section \<open>Lemmas\<close>

subsection \<open>Splitting, scanning and parsing\<close>

lemma Split_Nil: "Split [] = [[]]"
  unfolding Split.simps [of "[]"] by simp

lemma Split_Cons:
  "Split (c # cs) = (if c = sp then [] # Split cs else (c # hd (Split cs)) # tl (Split cs))"
proof -
  have h: "hd (Split cs) = takeWhile (\<lambda>c. c \<noteq> sp) cs"
    unfolding Split.simps [of cs] by (auto simp: Let_def)
  have t: "tl (Split cs) =
      (if dropWhile (\<lambda>c. c \<noteq> sp) cs = [] then []
       else Split (tl (dropWhile (\<lambda>c. c \<noteq> sp) cs)))"
    unfolding Split.simps [of cs] by (auto simp: Let_def)
  show ?thesis
    unfolding Split.simps [of "c # cs"] by (auto simp: Let_def h t)
qed

lemma Split_not_Nil: "Split s \<noteq> []"
  unfolding Split.simps [of s] by (simp add: Let_def)


lemma Split_at_space:
  assumes "sp \<notin> set f"
  shows "Split (f @ sp # rest) = f # Split rest"
proof -
  from assms have "\<forall>c \<in> set f. c \<noteq> sp" by auto
  then have "takeWhile (\<lambda>c. c \<noteq> sp) (f @ sp # rest) = f"
    and "dropWhile (\<lambda>c. c \<noteq> sp) (f @ sp # rest) = sp # rest"
    by simp_all
  then show ?thesis
    unfolding Split.simps [of "f @ sp # rest"] by (simp add: Let_def)
qed



lemma addProperties_eq:
  "addProperties vs (proplist, pset) =
     (proplist @ map capitilizeFirstLetter vs,
      fold (\<lambda>v. Mapping.update (capitilizeFirstLetter v) True) vs pset)"
  by (induction vs arbitrary: proplist pset) (simp_all add: Let_def)

lemma keys_fold_update:
  "Mapping.keys (fold (\<lambda>v. Mapping.update (f v) True) vs m) = Mapping.keys m \<union> f ` set vs"
  by (induction vs arbitrary: m) auto

lemma parseLine_skip: "\<not> qualifies text \<Longrightarrow> parseLine tg text = tg"
  by (auto simp: qualifies_def parseLine_def Let_def)

lemma parseLine_Definitions:
  "qualifies text \<Longrightarrow> Definitions (parseLine tg text) = Definitions tg @ [recordOf text]"
  by (auto simp: qualifies_def parseLine_def recordOf_def Let_def addProperties_eq split: prod.splits)

lemma parseLine_keys:
  "qualifies text \<Longrightarrow>
   Mapping.keys (PropertyNameSet (parseLine tg text)) =
     Mapping.keys (PropertyNameSet tg) \<union> set (Properties (recordOf text))"
  by (auto simp: qualifies_def parseLine_def recordOf_def Let_def addProperties_eq keys_fold_update
      split: prod.splits)

lemma foldl_parseLine_Definitions:
  "Definitions (foldl parseLine tg ls) = Definitions tg @ map recordOf (filter qualifies ls)"
  by (induction ls arbitrary: tg) (simp_all add: parseLine_skip parseLine_Definitions)

lemma foldl_parseLine_keys:
  "Mapping.keys (PropertyNameSet (foldl parseLine tg ls)) =
     Mapping.keys (PropertyNameSet tg) \<union> (\<Union>l \<in> set (filter qualifies ls). set (Properties (recordOf l)))"
  by (induction ls arbitrary: tg) (auto simp: parseLine_skip parseLine_keys)

subsection \<open>Trimming, capitalisation and evaluation on literals\<close>

lemmas eval_trim = TrimSpace_def trimRight_def trimLeft.simps spaceWidth_def spaceEncodings_def

lemmas eval_chars = sp_def nl_def cr_def tab_def




lemma count_list_distinct: "distinct xs \<Longrightarrow> x \<in> set xs \<Longrightarrow> count_list xs x = 1"
  by (induction xs) (auto simp: count_list_0_iff)

lemma keys_parseTileDefs:
  "Mapping.keys (PropertyNameSet (parseTileDefs s tilegen)) =
     (\<Union>l \<in> set (filter qualifies (scanLines s)). set (Properties (recordOf l)))"
  by (simp add: parseTileDefs_def foldl_parseLine_keys tilegen_def)

lemma Definitions_parseTileDefs:
  "Definitions (parseTileDefs s tilegen) = map recordOf (filter qualifies (scanLines s))"
  by (simp add: parseTileDefs_def foldl_parseLine_Definitions tilegen_def)

lemma finite_keys_parseTileDefs: "finite (Mapping.keys (PropertyNameSet (parseTileDefs s tilegen)))"
  by (simp add: keys_parseTileDefs)

lemma capitilizeFirstLetter_ascii:
  "(of_char c :: nat) < 128 \<Longrightarrow>
   capitilizeFirstLetter (c # cs) =
     (if CHR ''a'' \<le> c \<and> c \<le> CHR ''z'' then char_of ((of_char c :: nat) - 32) else c) # cs"
  by (simp add: ToUpperByte_def)

lemma of_char_bit5: "(of_char (Char b0 b1 b2 b3 b4 True b6 b7) :: nat) = of_char (Char b0 b1 b2 b3 b4 False b6 b7) + 32"
  by (simp add: of_char_def)
lemma char_of_clear_bit5: "char_of ((of_char (Char b0 b1 b2 b3 b4 True b6 b7) :: nat) - 32) = Char b0 b1 b2 b3 b4 False b6 b7"
  unfolding of_char_bit5 by (simp del: of_char_Char)

lemma ToUpperByte_bit5_set:
  "ToUpperByte (Char b0 b1 b2 b3 b4 True b6 b7) =
     (if b7 then [CHR 0xEF, CHR 0xBF, CHR 0xBD]
      else if CHR ''a'' \<le> Char b0 b1 b2 b3 b4 True b6 b7 \<and> Char b0 b1 b2 b3 b4 True b6 b7 \<le> CHR ''z''
           then [Char b0 b1 b2 b3 b4 False b6 b7]
           else [Char b0 b1 b2 b3 b4 True b6 b7])"
  unfolding ToUpperByte_def char_of_clear_bit5
  by (cases b7) (simp_all add: of_char_def)

lemma ToUpperByte_bit5_clear:
  "ToUpperByte (Char b0 b1 b2 b3 b4 False b6 b7) =
     (if b7 then [CHR 0xEF, CHR 0xBF, CHR 0xBD] else [Char b0 b1 b2 b3 b4 False b6 b7])"
  unfolding ToUpperByte_def
  by (cases b7; cases b6) (simp_all add: of_char_def less_eq_char_def)

lemmas ToUpperByte_Char = ToUpperByte_bit5_set ToUpperByte_bit5_clear

lemmas eval_line = parseLine_def eval_trim Split.simps Let_def ToUpperByte_Char eval_chars

lemmas eval_parse = parseTileDefs_def scanLines.simps dropCR_def MaxScanTokenSize_def tilegen_def
  eval_line

subsection \<open>The bitmask text\<close>

lemma foldl_append_sep:
  "foldl (\<lambda>s v. s @ v @ sep) s arr = s @ concat (map (\<lambda>v. v @ sep) arr)"
  by (induction arr arbitrary: s) simp_all

lemma bitmaskExpr_butlast_last:
  "ps \<noteq> [] \<Longrightarrow> bitmaskExpr ps = concat (map (\<lambda>v. v @ '' | '') (butlast ps)) @ last ps"
  by (induction ps rule: bitmaskExpr.induct) simp_all

lemma length_bitmaskExpr:
  "ps \<noteq> [] \<Longrightarrow> length (bitmaskExpr ps) = sum_list (map length ps) + 3 * (length ps - 1)"
  by (induction ps rule: bitmaskExpr.induct) simp_all

lemma count_bar_bitmaskExpr:
  "ps \<noteq> [] \<Longrightarrow> list_all (\<lambda>p. CHR ''|'' \<notin> set p) ps \<Longrightarrow>
   count_list (bitmaskExpr ps) (CHR ''|'') = length ps - 1"
  by (induction ps rule: bitmaskExpr.induct) (simp_all add: count_list_0_iff)

lemma stringifyTile_eq:
  "stringifyTile s tile =
     s @ [tab] @ Name tile @ '': '' @ bitmaskExpr (Properties tile) @ '','' @ [nl]"
proof (cases "Properties tile")
  case Nil
  then show ?thesis by (simp add: stringifyTile_def)
next
  case (Cons p ps)
  show ?thesis
  proof (cases ps)
    case Nil
    with Cons show ?thesis by (simp add: stringifyTile_def)
  next
    case (Cons q qs)
    let ?list = "Properties tile"
    from \<open>?list = p # ps\<close> Cons have ne: "?list \<noteq> []" and len: "2 \<le> length ?list"
      by simp_all
    have t: "take (length ?list - 1) ?list = butlast ?list"
      by (simp add: butlast_conv_take)
    from ne have l: "?list ! (length ?list - 1) = last ?list"
      by (simp add: last_conv_nth)
    from len have n0: "length ?list \<noteq> 0" and n1: "length ?list \<noteq> 1"
      by auto
    have "stringifyTile s tile =
        foldl (\<lambda>s v. s @ v @ '' | '') (s @ [tab] @ Name tile @ '': '') (butlast ?list)
        @ last ?list @ '','' @ [nl]"
      unfolding stringifyTile_def Let_def t l if_not_P [OF n0] if_not_P [OF n1] by simp
    also have "\<dots> = s @ [tab] @ Name tile @ '': ''
        @ (concat (map (\<lambda>v. v @ '' | '') (butlast ?list)) @ last ?list) @ '','' @ [nl]"
      by (simp add: foldl_append_sep)
    also from ne have "concat (map (\<lambda>v. v @ '' | '') (butlast ?list)) @ last ?list
        = bitmaskExpr ?list"
      by (rule bitmaskExpr_butlast_last [symmetric])
    finally show ?thesis .
  qed
qed

lemma foldl_stringifyTile:
  "foldl stringifyTile s defs =
     s @ concat (map (\<lambda>tile. [tab] @ Name tile @ '': '' @ bitmaskExpr (Properties tile)
                        @ '','' @ [nl]) defs)"
  by (induction defs arbitrary: s) (simp_all add: stringifyTile_eq)

subsection \<open>Constants and the source template\<close>



lemma goName_not_blank: "goName n \<Longrightarrow> \<not> goBlank n"
  by (cases n) (auto simp: goName_def goBlank_def sp_def tab_def cr_def nl_def)

lemma constBlock_names:
  assumes "list_all goName (first # names)"
  shows "constBlock expr (first # names) =
     (first, expr 0) # map (\<lambda>i. (names ! i, expr (Suc i))) [0..<length names]"
proof -
  from assms have "filter (\<lambda>n. \<not> goBlank n) (first # names) = first # names"
    by (auto simp: list_all_iff goName_not_blank filter_id_conv)
  moreover have "enumerate (Suc 0) names = map (\<lambda>i. (Suc i, names ! i)) [0..<length names]"
    by (rule nth_equalityI) (simp_all add: nth_enumerate_eq)
  ultimately show ?thesis
    by (simp add: constBlock_def comp_def)
qed

lemma fst_constBlock: "map fst (constBlock expr names) = filter (\<lambda>n. \<not> goBlank n) names"
proof -
  have "map fst (map (\<lambda>(iota, name). (name, expr iota)) (enumerate 0 xs)) = xs" for xs :: "string list"
    by (rule nth_equalityI) (simp_all add: nth_enumerate_eq)
  then show ?thesis by (simp add: constBlock_def)
qed

lemma fitsInt_zero: "fitsInt bits 0"
  by (simp add: fitsInt_def)

lemma fitsInt_kind:
  assumes "int n < 2 ^ (bits - 1)" and "i < n"
  shows "fitsInt bits (int (Suc i))"
proof -
  from assms(2) have "int (Suc i) \<le> int n" by simp
  with assms(1) have "int (Suc i) < 2 ^ (bits - 1)" by linarith
  moreover have "- (2 ^ (bits - 1)) \<le> (0::int)" by simp
  ultimately show ?thesis by (simp add: fitsInt_def)
qed

lemma fitsInt_flag:
  assumes "m < bits" and "j < m"
  shows "fitsInt bits (2 ^ j)"
proof -
  from assms have "j < bits - 1" by arith
  then have "(2::int) ^ j < 2 ^ (bits - 1)" by simp
  moreover have "- (2 ^ (bits - 1)) \<le> (0::int)" and "(0::int) \<le> 2 ^ j" by simp_all
  ultimately show ?thesis unfolding fitsInt_def by linarith
qed

lemma constDeclarations_proper:
  assumes names: "list_all (\<lambda>n. goName n \<and> n \<noteq> ''_'')
      (map Name (Definitions tg) @ Mapping.ordered_keys (PropertyNameSet tg))"
    and dist: "distinct (map Name (Definitions tg) @ Mapping.ordered_keys (PropertyNameSet tg)
      @ packageNames)"
    and fitk: "int (length (Definitions tg)) < 2 ^ (bits - 1)"
    and fitp: "length (Mapping.ordered_keys (PropertyNameSet tg)) < bits"
  shows "constDeclarations bits tg =
     Declares
       ((''_'', 0) # map (\<lambda>i. (Name (Definitions tg ! i), int i + 1)) [0..<length (Definitions tg)])
       ((''_'', 0) # map (\<lambda>j. (Mapping.ordered_keys (PropertyNameSet tg) ! j, 2 ^ j))
                       [0..<length (Mapping.ordered_keys (PropertyNameSet tg))])"
proof -
  let ?ks = "map Name (Definitions tg)"
  let ?ps = "Mapping.ordered_keys (PropertyNameSet tg)"
  let ?K = "(''_'', 0) # map (\<lambda>i. (Name (Definitions tg ! i), int i + 1)) [0..<length (Definitions tg)]"
  let ?F = "(''_'', 0) # map (\<lambda>j. (?ps ! j, (2::int) ^ j)) [0..<length ?ps]"
  from names have gk: "list_all goName (''_'' # ?ks)" and gp: "list_all goName (''_'' # ?ps)"
    by (auto simp: list_all_iff goName_def)
  have K: "constBlock (\<lambda>iota. int iota) (''_'' # ?ks) = ?K"
    unfolding constBlock_names [OF gk] by (simp add: add.commute)
  have F: "constBlock (\<lambda>iota. drop_bit 1 (push_bit iota 1)) (''_'' # ?ps) = ?F"
    unfolding constBlock_names [OF gp] by (simp add: drop_bit_eq_div push_bit_eq_mult)
  have "map (\<lambda>i. Name (Definitions tg ! i)) [0..<length (Definitions tg)] = ?ks"
    by (rule nth_equalityI) simp_all
  then have fk: "map fst ?K = ''_'' # ?ks"
    by (simp add: comp_def)
  have fp: "map fst ?F = ''_'' # ?ps"
    by (simp add: comp_def map_nth)
  from gk gp have g: "list_all goName (map fst (?K @ ?F))"
    unfolding map_append fk fp by simp
  from names have "filter (\<lambda>n. n \<noteq> ''_'') (?ks @ ?ps) = ?ks @ ?ps"
    by (auto simp: list_all_iff filter_id_conv)
  then have "filter (\<lambda>n. n \<noteq> ''_'') (map fst (?K @ ?F)) = ?ks @ ?ps"
    unfolding map_append fk fp by simp
  with dist have d: "distinct (filter (\<lambda>n. n \<noteq> ''_'') (map fst (?K @ ?F)) @ packageNames)"
    by simp
  have "list_all (\<lambda>(n, v). fitsInt bits v) ?K"
    using fitsInt_kind [OF fitk] by (auto simp: list_all_iff fitsInt_zero add.commute)
  moreover have "list_all (\<lambda>(n, v). fitsInt bits v) ?F"
    using fitsInt_flag [OF fitp] by (auto simp: list_all_iff fitsInt_zero)
  ultimately have f: "list_all (\<lambda>(n, v). fitsInt bits v) (?K @ ?F)"
    by simp
  show ?thesis
    unfolding constDeclarations_def K F Let_def using g d f by simp
qed

lemma constDeclarations_overflow:
  assumes names: "list_all (\<lambda>n. goName n \<and> n \<noteq> ''_'')
      (map Name (Definitions tg) @ Mapping.ordered_keys (PropertyNameSet tg))"
    and bits: "0 < bits" and many: "bits \<le> length (Mapping.ordered_keys (PropertyNameSet tg))"
  shows "constDeclarations bits tg = Refused"
proof -
  let ?ks = "map Name (Definitions tg)"
  let ?ps = "Mapping.ordered_keys (PropertyNameSet tg)"
  let ?m = "length ?ps"
  define K where "K = constBlock (\<lambda>iota. int iota) (''_'' # ?ks)"
  define F where "F = constBlock (\<lambda>iota. drop_bit 1 (push_bit iota 1)) (''_'' # ?ps)"
  from names have gk: "list_all goName (''_'' # ?ks)" and gp: "list_all goName (''_'' # ?ps)"
    by (auto simp: list_all_iff goName_def)
  from bits many have m: "?m - 1 < ?m" and big: "bits - 1 \<le> ?m - 1" by arith+
  have "(2::int) ^ (bits - 1) \<le> 2 ^ (?m - 1)"
    using big by (rule power_increasing) simp
  then have nf: "\<not> fitsInt bits (2 ^ (?m - 1))"
    by (simp add: fitsInt_def)
  have Feq: "F = (''_'', 0) # map (\<lambda>j. (?ps ! j, 2 ^ j)) [0..<?m]"
    unfolding F_def constBlock_names [OF gp] by (simp add: drop_bit_eq_div push_bit_eq_mult)
  from m have "?m - 1 \<in> set [0..<?m]" by simp
  then have "(\<lambda>j. (?ps ! j, (2::int) ^ j)) (?m - 1) \<in> set (map (\<lambda>j. (?ps ! j, 2 ^ j)) [0..<?m])"
    unfolding set_map by (rule imageI)
  then have mem: "(?ps ! (?m - 1), (2::int) ^ (?m - 1)) \<in> set F"
    unfolding Feq by simp
  have nofit: "\<not> list_all (\<lambda>(n, v). fitsInt bits v) (K @ F)"
  proof
    assume "list_all (\<lambda>(n, v). fitsInt bits v) (K @ F)"
    then have "\<forall>x \<in> set F. (\<lambda>(n, v). fitsInt bits v) x" by (simp add: list_all_iff)
    with mem have "(\<lambda>(n, v). fitsInt bits v) (?ps ! (?m - 1), (2::int) ^ (?m - 1))" by (rule bspec [rotated])
    with nf show False by simp
  qed
  from gk gp have g: "list_all goName (map fst (K @ F))"
    unfolding K_def F_def map_append fst_constBlock by (auto simp: list_all_iff)
  have "constDeclarations bits tg =
      (if \<not> list_all goName (map fst (K @ F)) then Unread
       else if \<not> distinct (filter (\<lambda>n. n \<noteq> ''_'') (map fst (K @ F)) @ packageNames) then Refused
       else if \<not> list_all (\<lambda>(n, v). fitsInt bits v) (K @ F) then Refused
       else Declares K F)"
    unfolding constDeclarations_def K_def F_def Let_def ..
  with g nofit show ?thesis by simp
qed


subsection \<open>Files and timestamps\<close>

lemma parseLine_Timestamp: "parseLine (tg\<lparr>Timestamp := ts\<rparr>) line = (parseLine tg line)\<lparr>Timestamp := ts\<rparr>"
  by (simp add: parseLine_def Let_def split: prod.splits)

lemma foldl_parseLine_Timestamp:
  "foldl parseLine (tg\<lparr>Timestamp := ts\<rparr>) ls = (foldl parseLine tg ls)\<lparr>Timestamp := ts\<rparr>"
  by (induction ls arbitrary: tg) (simp_all add: parseLine_Timestamp)

lemma parseTileDefs_Timestamp:
  "parseTileDefs b (tg\<lparr>Timestamp := ts\<rparr>) = (parseTileDefs b tg)\<lparr>Timestamp := ts\<rparr>"
  by (simp add: parseTileDefs_def foldl_parseLine_Timestamp)

lemma stringifyPropertyList_Timestamp:
  "stringifyPropertyList (tg\<lparr>Timestamp := ts\<rparr>) = (stringifyPropertyList tg)\<lparr>Timestamp := ts\<rparr>"
  by (simp add: stringifyPropertyList_def)

lemma CodeTemplate_Timestamp: "CodeTemplate (tg\<lparr>Timestamp := ts\<rparr>) = CodeTemplate tg"
  by (simp add: CodeTemplate_def)

lemma ReadmeTemplate_Timestamp:
  "ReadmeTemplate (tg\<lparr>Timestamp := ts\<rparr>) =
     take 131 (ReadmeTemplate (tg\<lparr>Timestamp := []\<rparr>)) @ ts
     @ drop 131 (ReadmeTemplate (tg\<lparr>Timestamp := []\<rparr>))"
  by (simp add: ReadmeTemplate_def)

lemma makeTheFile_open_fails:
  "openFails env filename \<Longrightarrow>
   makeTheFile env templ filename tg w = Fatal (w\<lparr>stderr := stderr w @ [OpenFileError filename]\<rparr>)"
  by (simp add: makeTheFile_def)

lemma makeTheFile_returns:
  "\<not> openFails env filename \<Longrightarrow>
   \<exists>w'. makeTheFile env templ filename tg w = Returns () w' \<and> stderr w' = stderr w"
  by (simp add: makeTheFile_def Let_def)

lemma makeTheFile_succeeds:
  "\<not> openFails env filename \<Longrightarrow> \<not> truncateFails env filename \<Longrightarrow>
   writeStops env filename = None \<Longrightarrow>
   makeTheFile env templ filename tg w = Returns () (w\<lparr>files := (files w)(filename \<mapsto> templ tg)\<rparr>)"
  by (simp add: makeTheFile_def Let_def)

lemma main_succeeds:
  assumes "ioSucceeds env" and "files w filenameTileTypes = Some b"
  shows "main env w =
     Returns () (w\<lparr>files := (files w)
       (filenameReadme \<mapsto>
          ReadmeTemplate ((stringifyPropertyList (parseTileDefs b tilegen))\<lparr>Timestamp := now env\<rparr>),
        filenameCodeOutput \<mapsto> CodeTemplate (stringifyPropertyList (parseTileDefs b tilegen)))\<rparr>)"
  using assms
  by (simp add: main_def processTileTypesFile_def ioSucceeds_def Let_def makeTheFile_succeeds
      parseTileDefs_Timestamp stringifyPropertyList_Timestamp CodeTemplate_Timestamp)

lemma filenames_distinct:
  "filenameReadme \<noteq> filenameCodeOutput" "filenameCodeOutput \<noteq> filenameReadme"
  "filenameTileTypes \<noteq> filenameReadme" "filenameReadme \<noteq> filenameTileTypes"
  "filenameTileTypes \<noteq> filenameCodeOutput" "filenameCodeOutput \<noteq> filenameTileTypes"
  by (simp_all add: filenameReadme_def filenameCodeOutput_def filenameTileTypes_def)

subsection \<open>The generator on two example texts\<close>

lemma roundTrip_parse:
  "parseTileDefs roundTripInput tilegen =
     \<lparr>Timestamp = [],
      Definitions =
        [\<lparr>Symbol = ''g'', Name = ''Grass'', Properties = [''Burns'']\<rparr>,
         \<lparr>Symbol = ''d'', Name = ''Dirt'', Properties = []\<rparr>,
         \<lparr>Symbol = ''b'', Name = ''Bush'', Properties = [''Burns'']\<rparr>,
         \<lparr>Symbol = ''t'', Name = ''Tree'', Properties = [''Burns'', ''Nowalk'']\<rparr>,
         \<lparr>Symbol = ''w'', Name = ''Water'', Properties = [''Nowalk'']\<rparr>],
      PropertyNameSet =
        Mapping.update ''Nowalk'' True (Mapping.update ''Nowalk'' True
          (Mapping.update ''Burns'' True (Mapping.update ''Burns'' True
            (Mapping.update ''Burns'' True Mapping.empty)))),
      DefaultProperties = []\<rparr>"
  unfolding roundTripInput_def by (simp add: eval_parse)

lemma roundTrip_Definitions:
  "Definitions roundTripModel =
     [\<lparr>Symbol = ''g'', Name = ''Grass'', Properties = [''Burns'']\<rparr>,
      \<lparr>Symbol = ''d'', Name = ''Dirt'', Properties = []\<rparr>,
      \<lparr>Symbol = ''b'', Name = ''Bush'', Properties = [''Burns'']\<rparr>,
      \<lparr>Symbol = ''t'', Name = ''Tree'', Properties = [''Burns'', ''Nowalk'']\<rparr>,
      \<lparr>Symbol = ''w'', Name = ''Water'', Properties = [''Nowalk'']\<rparr>]"
  unfolding roundTripModel_def roundTrip_parse by (simp add: stringifyPropertyList_def)

lemma roundTrip_keys: "Mapping.keys (PropertyNameSet roundTripModel) = {''Burns'', ''Nowalk''}"
  unfolding roundTripModel_def roundTrip_parse by (auto simp: stringifyPropertyList_def)

lemma roundTrip_ordered_keys:
  "Mapping.ordered_keys (PropertyNameSet roundTripModel) = [''Burns'', ''Nowalk'']"
  using roundTrip_keys by (simp add: ordered_keys_def)

lemma roundTrip_DefaultProperties:
  "DefaultProperties roundTripModel =
     [tab] @ ''Grass: Burns,'' @ [nl]
     @ [tab] @ ''Dirt: 0,'' @ [nl]
     @ [tab] @ ''Bush: Burns,'' @ [nl]
     @ [tab] @ ''Tree: Burns | Nowalk,'' @ [nl]
     @ [tab] @ ''Water: Nowalk,'' @ [nl]"
  unfolding roundTripModel_def roundTrip_parse
  by (simp add: stringifyPropertyList_def stringifyTile_eq)

lemma roundTrip_constDeclarations:
  assumes "bits = 32 \<or> bits = 64"
  shows "constDeclarations bits roundTripModel =
     Declares
       [(''_'', 0), (''Grass'', 1), (''Dirt'', 2), (''Bush'', 3), (''Tree'', 4), (''Water'', 5)]
       [(''_'', 0), (''Burns'', 1), (''Nowalk'', 2)]"
proof -
  have "list_all (\<lambda>n. goName n \<and> n \<noteq> ''_'')
      (map Name (Definitions roundTripModel) @ Mapping.ordered_keys (PropertyNameSet roundTripModel))"
    unfolding roundTrip_Definitions roundTrip_ordered_keys
    by (simp add: goName_def goLetter_def goDigit_def)
  moreover have "distinct (map Name (Definitions roundTripModel)
      @ Mapping.ordered_keys (PropertyNameSet roundTripModel) @ packageNames)"
    unfolding roundTrip_Definitions roundTrip_ordered_keys by (simp add: packageNames_def)
  moreover from assms have "int (length (Definitions roundTripModel)) < 2 ^ (bits - 1)"
    unfolding roundTrip_Definitions by auto
  moreover from assms have "length (Mapping.ordered_keys (PropertyNameSet roundTripModel)) < bits"
    unfolding roundTrip_ordered_keys by auto
  ultimately have "constDeclarations bits roundTripModel =
     Declares
       ((''_'', 0) # map (\<lambda>i. (Name (Definitions roundTripModel ! i), int i + 1))
                       [0..<length (Definitions roundTripModel)])
       ((''_'', 0) # map (\<lambda>j. (Mapping.ordered_keys (PropertyNameSet roundTripModel) ! j, 2 ^ j))
                       [0..<length (Mapping.ordered_keys (PropertyNameSet roundTripModel))])"
    by (rule constDeclarations_proper)
  then show ?thesis
    unfolding roundTrip_Definitions roundTrip_ordered_keys by (simp add: upt_rec)
qed




section \<open>The claims\<close>

subsection \<open>C1: one record per qualifying line\<close>




subsection \<open>C2: the bitmask expression\<close>

text \<open>
  C2. For every tile, what stringifyPropertyList appends is a tab, the Name, a colon and
  the bitmask expression of the tile's properties, closed by a comma and a newline; the
  expression is the literal 0 for no property, the name alone for one property, and for
  N > 1 properties every name but the last followed by the combinator, then the last
  name with nothing after it: the N names in their order and N - 1 combinators, as the
  count of bytes shows, and the count of bars when no name holds one.
\<close>

theorem stringifyPropertyList_bitmask:
  "stringifyTile s tile =
     s @ [tab] @ Name tile @ '': '' @ bitmaskExpr (Properties tile) @ '','' @ [nl]
   \<and> DefaultProperties (stringifyPropertyList tg) =
       concat (map (\<lambda>tile. [tab] @ Name tile @ '': '' @ bitmaskExpr (Properties tile)
                        @ '','' @ [nl]) (Definitions tg))
   \<and> bitmaskExpr [] = ''0''
   \<and> bitmaskExpr [p] = p
   \<and> (2 \<le> length ps \<longrightarrow>
        bitmaskExpr ps = concat (map (\<lambda>v. v @ '' | '') (butlast ps)) @ last ps
        \<and> length (bitmaskExpr ps) = sum_list (map length ps) + 3 * (length ps - 1))
   \<and> (2 \<le> length ps \<and> list_all (\<lambda>p. CHR ''|'' \<notin> set p) ps \<longrightarrow>
        count_list (bitmaskExpr ps) (CHR ''|'') = length ps - 1)"
proof -
  have "DefaultProperties (stringifyPropertyList tg) =
       concat (map (\<lambda>tile. [tab] @ Name tile @ '': '' @ bitmaskExpr (Properties tile)
                        @ '','' @ [nl]) (Definitions tg))"
    by (simp add: stringifyPropertyList_def foldl_stringifyTile)
  moreover have "2 \<le> length ps \<longrightarrow> ps \<noteq> []" by auto
  ultimately show ?thesis
    using stringifyTile_eq [of s tile] bitmaskExpr_butlast_last [of ps] length_bitmaskExpr [of ps]
      count_bar_bitmaskExpr [of ps]
    by simp
qed

text \<open>The theorem at the tile Tree of the specification and at a list of three names.\<close>

theorem stringifyPropertyList_bitmask_witness:
  "stringifyTile [] \<lparr>Symbol = ''t'', Name = ''Tree'', Properties = [''Burns'', ''Nowalk'']\<rparr>
     = [tab] @ ''Tree: Burns | Nowalk,'' @ [nl]
   \<and> bitmaskExpr [''Burns'', ''Nowalk'', ''Wet''] = ''Burns | Nowalk | Wet''
   \<and> length (bitmaskExpr [''Burns'', ''Nowalk'', ''Wet'']) = (5 + 6 + 3) + 3 * 2
   \<and> count_list (bitmaskExpr [''Burns'', ''Nowalk'', ''Wet'']) (CHR ''|'') = 2"
  using stringifyPropertyList_bitmask [of "[]"
      "\<lparr>Symbol = ''t'', Name = ''Tree'', Properties = [''Burns'', ''Nowalk'']\<rparr>"
      tilegen "[]" "[''Burns'', ''Nowalk'', ''Wet'']"]
  by simp

subsection \<open>C3: the round trip of the specification\<close>

text \<open>
  C3. For the five lines of the scenario the pipeline yields the property set
  {Burns, Nowalk}; the kind constants Grass, Dirt, Bush, Tree, Water in this order,
  after the blank identifier, with the values 1 to 5, and the flags Burns and Nowalk
  with 1 and 2, on either size of int; the bitmask expressions Burns, 0, Burns, Burns | Nowalk
  and Nowalk, as expressions and as the text of the DefaultProperty table; the symbols
  g, d, b, t, w mapped to these kinds; and the source artifact that holds all of it,
  byte for byte, which a run of main on a file of these lines writes to types.go.
  The newline after the last line makes no difference.
\<close>

theorem round_trip:
  "Mapping.keys (PropertyNameSet roundTripModel) = {''Burns'', ''Nowalk''}
   \<and> constDeclarations 64 roundTripModel =
       Declares
         [(''_'', 0), (''Grass'', 1), (''Dirt'', 2), (''Bush'', 3), (''Tree'', 4), (''Water'', 5)]
         [(''_'', 0), (''Burns'', 1), (''Nowalk'', 2)]
   \<and> constDeclarations 32 roundTripModel =
       Declares
         [(''_'', 0), (''Grass'', 1), (''Dirt'', 2), (''Bush'', 3), (''Tree'', 4), (''Water'', 5)]
         [(''_'', 0), (''Burns'', 1), (''Nowalk'', 2)]
   \<and> map (\<lambda>tile. (Name tile, bitmaskExpr (Properties tile))) (Definitions roundTripModel) =
       [(''Grass'', ''Burns''), (''Dirt'', ''0''), (''Bush'', ''Burns''),
        (''Tree'', ''Burns | Nowalk''), (''Water'', ''Nowalk'')]
   \<and> DefaultProperties roundTripModel =
     [tab] @ ''Grass: Burns,'' @ [nl]
     @ [tab] @ ''Dirt: 0,'' @ [nl]
     @ [tab] @ ''Bush: Burns,'' @ [nl]
     @ [tab] @ ''Tree: Burns | Nowalk,'' @ [nl]
     @ [tab] @ ''Water: Nowalk,'' @ [nl]
   \<and> map (\<lambda>tile. (Symbol tile, Name tile)) (Definitions roundTripModel) =
       [(''g'', ''Grass''), (''d'', ''Dirt''), (''b'', ''Bush''), (''t'', ''Tree''),
        (''w'', ''Water'')]
   \<and> CodeTemplate roundTripModel =
     [nl]
     @ ''// Code generated by types_generator.go - DO NOT EDIT.'' @ [nl]
     @ [nl]
     @ ''package somepkg'' @ [nl]
     @ [nl]
     @ ''const ('' @ [nl]
     @ [tab] @ ''_ Kind = iota'' @ [nl]
     @ [tab] @ ''Grass'' @ [nl]
     @ [tab] @ ''Dirt'' @ [nl]
     @ [tab] @ ''Bush'' @ [nl]
     @ [tab] @ ''Tree'' @ [nl]
     @ [tab] @ ''Water'' @ [nl]
     @ [tab, nl]
     @ '')'' @ [nl]
     @ [nl]
     @ ''const ('' @ [nl]
     @ [tab] @ ''_ Property = (1 << iota) >> 1'' @ [nl]
     @ [tab] @ ''Burns'' @ [nl]
     @ [tab] @ ''Nowalk'' @ [nl]
     @ [tab, nl]
     @ '')'' @ [nl]
     @ [nl]
     @ ''var DefaultProperty = map[Kind]Property {'' @ [nl]
     @ [tab] @ ''Grass: Burns,'' @ [nl]
     @ [tab] @ ''Dirt: 0,'' @ [nl]
     @ [tab] @ ''Bush: Burns,'' @ [nl]
     @ [tab] @ ''Tree: Burns | Nowalk,'' @ [nl]
     @ [tab] @ ''Water: Nowalk,'' @ [nl]
     @ [nl]
     @ ''}'' @ [nl]
     @ [nl]
     @ ''var SymbolToKind = map[string]Kind {'' @ [nl]
     @ [tab, dq] @ ''g'' @ [dq] @ '': Grass,'' @ [nl]
     @ [tab, dq] @ ''d'' @ [dq] @ '': Dirt,'' @ [nl]
     @ [tab, dq] @ ''b'' @ [dq] @ '': Bush,'' @ [nl]
     @ [tab, dq] @ ''t'' @ [dq] @ '': Tree,'' @ [nl]
     @ [tab, dq] @ ''w'' @ [dq] @ '': Water,'' @ [nl]
     @ [tab, nl]
     @ ''}'' @ [nl]
   \<and> (\<exists>w'. main \<lparr>now = ''Sun Nov  1 18:31:00 UTC 2026'', readFails = (\<lambda>f. False),
              openFails = (\<lambda>f. False), truncateFails = (\<lambda>f. False),
              writeStops = (\<lambda>f. None)\<rparr>
            \<lparr>files = [filenameTileTypes \<mapsto> roundTripInput], stderr = []\<rparr> = Returns () w'
          \<and> files w' filenameCodeOutput = Some (CodeTemplate roundTripModel))
   \<and> parseTileDefs (butlast roundTripInput) tilegen = parseTileDefs roundTripInput tilegen"
proof -
  have "constDeclarations 64 roundTripModel =
       Declares
         [(''_'', 0), (''Grass'', 1), (''Dirt'', 2), (''Bush'', 3), (''Tree'', 4), (''Water'', 5)]
         [(''_'', 0), (''Burns'', 1), (''Nowalk'', 2)]"
    by (rule roundTrip_constDeclarations) simp
  moreover have "constDeclarations 32 roundTripModel =
       Declares
         [(''_'', 0), (''Grass'', 1), (''Dirt'', 2), (''Bush'', 3), (''Tree'', 4), (''Water'', 5)]
         [(''_'', 0), (''Burns'', 1), (''Nowalk'', 2)]"
    by (rule roundTrip_constDeclarations) simp
  moreover have "CodeTemplate roundTripModel =
     [nl]
     @ ''// Code generated by types_generator.go - DO NOT EDIT.'' @ [nl]
     @ [nl]
     @ ''package somepkg'' @ [nl]
     @ [nl]
     @ ''const ('' @ [nl]
     @ [tab] @ ''_ Kind = iota'' @ [nl]
     @ [tab] @ ''Grass'' @ [nl]
     @ [tab] @ ''Dirt'' @ [nl]
     @ [tab] @ ''Bush'' @ [nl]
     @ [tab] @ ''Tree'' @ [nl]
     @ [tab] @ ''Water'' @ [nl]
     @ [tab, nl]
     @ '')'' @ [nl]
     @ [nl]
     @ ''const ('' @ [nl]
     @ [tab] @ ''_ Property = (1 << iota) >> 1'' @ [nl]
     @ [tab] @ ''Burns'' @ [nl]
     @ [tab] @ ''Nowalk'' @ [nl]
     @ [tab, nl]
     @ '')'' @ [nl]
     @ [nl]
     @ ''var DefaultProperty = map[Kind]Property {'' @ [nl]
     @ [tab] @ ''Grass: Burns,'' @ [nl]
     @ [tab] @ ''Dirt: 0,'' @ [nl]
     @ [tab] @ ''Bush: Burns,'' @ [nl]
     @ [tab] @ ''Tree: Burns | Nowalk,'' @ [nl]
     @ [tab] @ ''Water: Nowalk,'' @ [nl]
     @ [nl]
     @ ''}'' @ [nl]
     @ [nl]
     @ ''var SymbolToKind = map[string]Kind {'' @ [nl]
     @ [tab, dq] @ ''g'' @ [dq] @ '': Grass,'' @ [nl]
     @ [tab, dq] @ ''d'' @ [dq] @ '': Dirt,'' @ [nl]
     @ [tab, dq] @ ''b'' @ [dq] @ '': Bush,'' @ [nl]
     @ [tab, dq] @ ''t'' @ [dq] @ '': Tree,'' @ [nl]
     @ [tab, dq] @ ''w'' @ [dq] @ '': Water,'' @ [nl]
     @ [tab, nl]
     @ ''}'' @ [nl]"
    unfolding CodeTemplate_def roundTrip_Definitions roundTrip_ordered_keys
      roundTrip_DefaultProperties
    by simp
  moreover have "\<exists>w'. main \<lparr>now = ''Sun Nov  1 18:31:00 UTC 2026'', readFails = (\<lambda>f. False),
              openFails = (\<lambda>f. False), truncateFails = (\<lambda>f. False),
              writeStops = (\<lambda>f. None)\<rparr>
            \<lparr>files = [filenameTileTypes \<mapsto> roundTripInput], stderr = []\<rparr> = Returns () w'
          \<and> files w' filenameCodeOutput = Some (CodeTemplate roundTripModel)"
    by (subst main_succeeds [where b = roundTripInput])
      (simp_all add: ioSucceeds_def roundTripModel_def)
  moreover have "parseTileDefs (butlast roundTripInput) tilegen = parseTileDefs roundTripInput tilegen"
    unfolding roundTrip_parse unfolding roundTripInput_def by (simp add: eval_parse)
  ultimately show ?thesis
    by (simp add: roundTrip_keys roundTrip_Definitions roundTrip_DefaultProperties)
qed

subsection \<open>C4: the order of the property flags\<close>




subsection \<open>C5: the values of the constants\<close>





subsection \<open>C6: the property set\<close>

text \<open>
  C6. After parsing any input, the keys of PropertyNameSet are exactly the capitalised
  tokens found from field 2 on in the lines that gave a record, which are exactly the
  elements of the Properties of the records; and the enumeration of the keys that the
  template ranges over lists each member once, however often the token occurred.
\<close>

theorem PropertyNameSet_exact:
  "Mapping.keys (PropertyNameSet (parseTileDefs s tilegen)) =
     {capitilizeFirstLetter tok | text tok.
        text \<in> set (scanLines s) \<and> qualifies text \<and> tok \<in> set (drop 2 (Split (TrimSpace text)))}
   \<and> Mapping.keys (PropertyNameSet (parseTileDefs s tilegen)) =
       (\<Union>t \<in> set (Definitions (parseTileDefs s tilegen)). set (Properties t))
   \<and> set (Mapping.ordered_keys (PropertyNameSet (parseTileDefs s tilegen))) =
       Mapping.keys (PropertyNameSet (parseTileDefs s tilegen))
   \<and> (\<forall>p \<in> Mapping.keys (PropertyNameSet (parseTileDefs s tilegen)).
         count_list (Mapping.ordered_keys (PropertyNameSet (parseTileDefs s tilegen))) p = 1)"
proof -
  let ?m = "PropertyNameSet (parseTileDefs s tilegen)"
  have fin: "finite (Mapping.keys ?m)" by (rule finite_keys_parseTileDefs)
  have a: "Mapping.keys ?m =
     {capitilizeFirstLetter tok | text tok.
        text \<in> set (scanLines s) \<and> qualifies text \<and> tok \<in> set (drop 2 (Split (TrimSpace text)))}"
    unfolding keys_parseTileDefs by (auto simp: recordOf_def Let_def)
  have b: "Mapping.keys ?m = (\<Union>t \<in> set (Definitions (parseTileDefs s tilegen)). set (Properties t))"
    unfolding keys_parseTileDefs Definitions_parseTileDefs by simp
  have c: "set (Mapping.ordered_keys ?m) = Mapping.keys ?m"
    using fin by (rule set_ordered_keys)
  have dist: "distinct (Mapping.ordered_keys ?m)"
    by (rule distinct_ordered_keys)
  have d: "\<forall>p \<in> Mapping.keys ?m. count_list (Mapping.ordered_keys ?m) p = 1"
  proof
    fix p
    assume "p \<in> Mapping.keys ?m"
    with c have "p \<in> set (Mapping.ordered_keys ?m)" by simp
    with dist show "count_list (Mapping.ordered_keys ?m) p = 1"
      by (rule count_list_distinct)
  qed
  from a b c d show ?thesis by blast
qed

text \<open>The theorem at a text where the second token seen is the smaller one and occurs
  in two records.\<close>

lemma parse_two_lines: "parseTileDefs (''t Tree nowalk burns'' @ [nl] @ ''b Bush burns'' @ [nl]) tilegen =
  \<lparr>Timestamp = [], Definitions = [\<lparr>Symbol = ''t'', Name = ''Tree'', Properties = [''Nowalk'', ''Burns'']\<rparr>,
     \<lparr>Symbol = ''b'', Name = ''Bush'', Properties = [''Burns'']\<rparr>],
   PropertyNameSet = Mapping.update ''Burns'' True (Mapping.update ''Burns'' True (Mapping.update ''Nowalk'' True Mapping.empty)),
   DefaultProperties = []\<rparr>"
  by (simp add: eval_parse)

theorem PropertyNameSet_exact_witness:
  "Mapping.keys (PropertyNameSet (parseTileDefs (''t Tree nowalk burns'' @ [nl] @ ''b Bush burns'' @ [nl]) tilegen))
     = {''Burns'', ''Nowalk''}
   \<and> Mapping.ordered_keys (PropertyNameSet (parseTileDefs (''t Tree nowalk burns'' @ [nl] @ ''b Bush burns'' @ [nl]) tilegen))
     = [''Burns'', ''Nowalk'']
   \<and> count_list (Mapping.ordered_keys (PropertyNameSet
         (parseTileDefs (''t Tree nowalk burns'' @ [nl] @ ''b Bush burns'' @ [nl]) tilegen))) ''Burns'' = 1"
proof -
  let ?tg = "parseTileDefs (''t Tree nowalk burns'' @ [nl] @ ''b Bush burns'' @ [nl]) tilegen"
  have defs: "Definitions ?tg = [\<lparr>Symbol = ''t'', Name = ''Tree'', Properties = [''Nowalk'', ''Burns'']\<rparr>,
     \<lparr>Symbol = ''b'', Name = ''Bush'', Properties = [''Burns'']\<rparr>]"
    unfolding parse_two_lines by simp
  from PropertyNameSet_exact [of "''t Tree nowalk burns'' @ [nl] @ ''b Bush burns'' @ [nl]"]
  have keys: "Mapping.keys (PropertyNameSet ?tg) = (\<Union>t \<in> set (Definitions ?tg). set (Properties t))"
    and cnt: "\<forall>p \<in> Mapping.keys (PropertyNameSet ?tg). count_list (Mapping.ordered_keys (PropertyNameSet ?tg)) p = 1"
    by blast+
  from keys have k: "Mapping.keys (PropertyNameSet ?tg) = {''Burns'', ''Nowalk''}"
    unfolding defs by auto
  then have o: "Mapping.ordered_keys (PropertyNameSet ?tg) = [''Burns'', ''Nowalk'']"
    by (simp add: ordered_keys_def)
  from cnt k have "count_list (Mapping.ordered_keys (PropertyNameSet ?tg)) ''Burns'' = 1"
    by blast
  with k o show ?thesis by blast
qed

subsection \<open>C7: capitalisation\<close>

text \<open>On the empty string and on a string that starts with an ASCII byte the function
  does what its name says.\<close>

lemma capitilizeFirstLetter_empty: "capitilizeFirstLetter [] = []"
  by simp

text \<open>
  C7 says that every non-empty string comes back with its first character in upper case
  and the rest unchanged. The code slices the first byte, not the first character: for
  a name that starts with a letter of two bytes in UTF-8 (here U+00E9, bytes C3 A9)
  the first byte alone is no valid UTF-8, and the result starts with the three
  bytes of U+FFFD followed by the orphaned second byte, not with U+00C9.
\<close>

theorem capitilizeFirstLetter_multibyte:
  "capitilizeFirstLetter ([CHR 0xC3, CHR 0xA9] @ ''clair'')
     = [CHR 0xEF, CHR 0xBF, CHR 0xBD, CHR 0xA9] @ ''clair''"
  by (simp add: ToUpperByte_def)

subsection \<open>C8: failures while writing\<close>

text \<open>
  C8 says that every failure to render or write an artifact is fatal: the error is
  logged and the process stops, writing nothing more. That holds for a path that cannot
  be opened (lemma \<open>makeTheFile_open_fails\<close>); it does not hold for a failing
  truncation or a failing execution of the template, whose results the code drops
  (lemma \<open>makeTheFile_returns\<close>). In the first run below truncating readme.md fails,
  in the second the write to readme.md stops before the first byte: both times main
  returns normally, nothing is logged, and types.go is written afterwards.
\<close>

theorem write_failures_ignored:
  "(\<exists>w'. main \<lparr>now = ''Sun Nov  1 18:31:00 UTC 2026'', readFails = (\<lambda>f. False),
            openFails = (\<lambda>f. False), truncateFails = (\<lambda>f. f = filenameReadme),
            writeStops = (\<lambda>f. None)\<rparr>
          \<lparr>files = [filenameTileTypes \<mapsto> ''d Dirt'' @ [nl]], stderr = []\<rparr> = Returns () w'
        \<and> stderr w' = []
        \<and> files w' filenameCodeOutput =
            Some (CodeTemplate (stringifyPropertyList (parseTileDefs (''d Dirt'' @ [nl]) tilegen))))
   \<and> (\<exists>w'. main \<lparr>now = ''Sun Nov  1 18:31:00 UTC 2026'', readFails = (\<lambda>f. False),
            openFails = (\<lambda>f. False), truncateFails = (\<lambda>f. False),
            writeStops = (\<lambda>f. if f = filenameReadme then Some 0 else None)\<rparr>
          \<lparr>files = [filenameTileTypes \<mapsto> ''d Dirt'' @ [nl]], stderr = []\<rparr> = Returns () w'
        \<and> stderr w' = []
        \<and> files w' filenameReadme = Some []
        \<and> files w' filenameCodeOutput =
            Some (CodeTemplate (stringifyPropertyList (parseTileDefs (''d Dirt'' @ [nl]) tilegen))))"
  by (simp add: main_def processTileTypesFile_def makeTheFile_def Let_def filenames_distinct
      parseTileDefs_Timestamp stringifyPropertyList_Timestamp CodeTemplate_Timestamp)

subsection \<open>C9: determinism up to the timestamp\<close>

text \<open>
  C9. Two runs in which no file operation fails, on the same contents of the input
  file, whatever the clock shows and whatever the output files held before: both
  return normally and log nothing, types.go is the same in both, byte for byte (it is
  the source template on the parsed input, and holds no timestamp), and the two
  readme.md are one text around the timestamp, which starts at byte 131.
\<close>

theorem generation_deterministic:
  assumes "ioSucceeds env1" and "ioSucceeds env2"
    and "files w1 filenameTileTypes = Some b" and "files w2 filenameTileTypes = Some b"
  shows "\<exists>w1' w2' pre post.
      main env1 w1 = Returns () w1' \<and> main env2 w2 = Returns () w2'
      \<and> files w1' filenameCodeOutput = files w2' filenameCodeOutput
      \<and> files w1' filenameCodeOutput =
          Some (CodeTemplate (stringifyPropertyList (parseTileDefs b tilegen)))
      \<and> files w1' filenameReadme = Some (pre @ now env1 @ post)
      \<and> files w2' filenameReadme = Some (pre @ now env2 @ post)
      \<and> length pre = 131
      \<and> stderr w1' = stderr w1 \<and> stderr w2' = stderr w2"
proof -
  let ?tg = "stringifyPropertyList (parseTileDefs b tilegen)"
  let ?blank = "ReadmeTemplate (?tg\<lparr>Timestamp := []\<rparr>)"
  let ?out = "\<lambda>env w. w\<lparr>files := (files w)
       (filenameReadme \<mapsto> ReadmeTemplate (?tg\<lparr>Timestamp := now env\<rparr>),
        filenameCodeOutput \<mapsto> CodeTemplate ?tg)\<rparr>"
  from assms have m1: "main env1 w1 = Returns () (?out env1 w1)"
    and m2: "main env2 w2 = Returns () (?out env2 w2)"
    by (simp_all add: main_succeeds)
  have len: "length (take 131 ?blank) = 131"
    by (simp add: ReadmeTemplate_def)
  have r1: "ReadmeTemplate (?tg\<lparr>Timestamp := now env1\<rparr>)
      = take 131 ?blank @ now env1 @ drop 131 ?blank"
    and r2: "ReadmeTemplate (?tg\<lparr>Timestamp := now env2\<rparr>)
      = take 131 ?blank @ now env2 @ drop 131 ?blank"
    by (rule ReadmeTemplate_Timestamp)+
  have f1: "files (?out env1 w1) filenameCodeOutput = Some (CodeTemplate ?tg)"
    and f2: "files (?out env2 w2) filenameCodeOutput = Some (CodeTemplate ?tg)"
    and g1: "files (?out env1 w1) filenameReadme = Some (take 131 ?blank @ now env1 @ drop 131 ?blank)"
    and g2: "files (?out env2 w2) filenameReadme = Some (take 131 ?blank @ now env2 @ drop 131 ?blank)"
    and e1: "stderr (?out env1 w1) = stderr w1" and e2: "stderr (?out env2 w2) = stderr w2"
    unfolding r1 r2 by (simp_all add: filenames_distinct)
  show ?thesis
    apply (rule exI [of _ "?out env1 w1"])
    apply (rule exI [of _ "?out env2 w2"])
    apply (rule exI [of _ "take 131 ?blank"])
    apply (rule exI [of _ "drop 131 ?blank"])
    apply (intro conjI)
            apply (rule m1)
           apply (rule m2)
          apply (simp only: f1 f2)
         apply (rule f1)
        apply (rule g1)
       apply (rule g2)
      apply (rule len)
     apply (rule e1)
    apply (rule e2)
    done
qed

text \<open>The theorem at two clock readings, the second run starting with an older
  readme.md in place.\<close>

theorem generation_deterministic_witness:
  "ioSucceeds \<lparr>now = ''Sun Nov  1 18:31:00 UTC 2026'', readFails = (\<lambda>f. False),
       openFails = (\<lambda>f. False), truncateFails = (\<lambda>f. False), writeStops = (\<lambda>f. None)\<rparr>
   \<and> ioSucceeds \<lparr>now = ''Mon Nov  2 09:00:00 UTC 2026'', readFails = (\<lambda>f. False),
       openFails = (\<lambda>f. False), truncateFails = (\<lambda>f. False), writeStops = (\<lambda>f. None)\<rparr>
   \<and> (\<exists>w1' w2' pre post.
      main \<lparr>now = ''Sun Nov  1 18:31:00 UTC 2026'', readFails = (\<lambda>f. False),
         openFails = (\<lambda>f. False), truncateFails = (\<lambda>f. False), writeStops = (\<lambda>f. None)\<rparr>
        \<lparr>files = [filenameTileTypes \<mapsto> ''d Dirt'' @ [nl]], stderr = []\<rparr> = Returns () w1'
      \<and> main \<lparr>now = ''Mon Nov  2 09:00:00 UTC 2026'', readFails = (\<lambda>f. False),
         openFails = (\<lambda>f. False), truncateFails = (\<lambda>f. False), writeStops = (\<lambda>f. None)\<rparr>
        \<lparr>files = [filenameTileTypes \<mapsto> ''d Dirt'' @ [nl], filenameReadme \<mapsto> ''old''],
          stderr = []\<rparr> = Returns () w2'
      \<and> files w1' filenameCodeOutput = files w2' filenameCodeOutput
      \<and> files w1' filenameReadme = Some (pre @ ''Sun Nov  1 18:31:00 UTC 2026'' @ post)
      \<and> files w2' filenameReadme = Some (pre @ ''Mon Nov  2 09:00:00 UTC 2026'' @ post))"
proof -
  let ?env1 = "\<lparr>now = ''Sun Nov  1 18:31:00 UTC 2026'', readFails = (\<lambda>f. False),
       openFails = (\<lambda>f. False), truncateFails = (\<lambda>f. False), writeStops = (\<lambda>f. None)\<rparr>"
  let ?env2 = "\<lparr>now = ''Mon Nov  2 09:00:00 UTC 2026'', readFails = (\<lambda>f. False),
       openFails = (\<lambda>f. False), truncateFails = (\<lambda>f. False), writeStops = (\<lambda>f. None)\<rparr>"
  let ?w1 = "\<lparr>files = [filenameTileTypes \<mapsto> ''d Dirt'' @ [nl]], stderr = []\<rparr>"
  let ?w2 = "\<lparr>files = [filenameTileTypes \<mapsto> ''d Dirt'' @ [nl], filenameReadme \<mapsto> ''old''],
          stderr = []\<rparr>"
  have ok1: "ioSucceeds ?env1" and ok2: "ioSucceeds ?env2"
    by (simp_all add: ioSucceeds_def)
  have in1: "files ?w1 filenameTileTypes = Some (''d Dirt'' @ [nl])"
    and in2: "files ?w2 filenameTileTypes = Some (''d Dirt'' @ [nl])"
    by (simp_all add: filenames_distinct)
  from generation_deterministic [OF ok1 ok2 in1 in2]
  obtain w1' w2' pre post where
    "main ?env1 ?w1 = Returns () w1'" "main ?env2 ?w2 = Returns () w2'"
    "files w1' filenameCodeOutput = files w2' filenameCodeOutput"
    "files w1' filenameReadme = Some (pre @ now ?env1 @ post)"
    "files w2' filenameReadme = Some (pre @ now ?env2 @ post)"
    by blast
  then have "\<exists>w1' w2' pre post.
      main ?env1 ?w1 = Returns () w1' \<and> main ?env2 ?w2 = Returns () w2'
      \<and> files w1' filenameCodeOutput = files w2' filenameCodeOutput
      \<and> files w1' filenameReadme = Some (pre @ ''Sun Nov  1 18:31:00 UTC 2026'' @ post)
      \<and> files w2' filenameReadme = Some (pre @ ''Mon Nov  2 09:00:00 UTC 2026'' @ post)"
    by (intro exI [of _ w1'] exI [of _ w2'] exI [of _ pre] exI [of _ post]) simp
  with ok1 ok2 show ?thesis by (intro conjI)
qed

subsection \<open>C10: empty fields\<close>

text \<open>
  C10. Two spaces in a row give an empty field. Whenever the trimmed line splits into
  the fields \<open>arr\<close>, two or more, the line gives one record: its Name is empty when
  field 1 is empty, and an empty field at position 2 or later is an empty entry of
  Properties, at the same position counted from field 2, and the empty string is a key
  of PropertyNameSet.
\<close>

theorem empty_fields:
  "(sp \<notin> set symbol \<longrightarrow> Split (symbol @ sp # sp # rest) = symbol # [] # Split rest)
   \<and> (TrimSpace text \<noteq> [] \<and> Split (TrimSpace text) = arr \<and> 2 \<le> length arr \<longrightarrow>
        (\<exists>tile. Definitions (parseLine tg text) = Definitions tg @ [tile]
           \<and> Symbol tile = arr ! 0
           \<and> (arr ! 1 = [] \<longrightarrow> Name tile = [])
           \<and> (\<forall>i. 2 \<le> i \<and> i < length arr \<and> arr ! i = [] \<longrightarrow>
                 Properties tile ! (i - 2) = []
                 \<and> [] \<in> Mapping.keys (PropertyNameSet (parseLine tg text)))))"
proof (intro conjI impI)
  assume "sp \<notin> set symbol"
  then have "Split (symbol @ sp # sp # rest) = symbol # Split (sp # rest)"
    by (rule Split_at_space)
  moreover have "Split ([] @ sp # rest) = [] # Split rest"
    by (rule Split_at_space) simp
  ultimately show "Split (symbol @ sp # sp # rest) = symbol # [] # Split rest"
    by simp
next
  assume h: "TrimSpace text \<noteq> [] \<and> Split (TrimSpace text) = arr \<and> 2 \<le> length arr"
  then have q: "qualifies text" by (simp add: qualifies_def)
  have r: "recordOf text = \<lparr>Symbol = arr ! 0, Name = capitilizeFirstLetter (arr ! 1),
      Properties = map capitilizeFirstLetter (drop 2 arr)\<rparr>"
    using h by (simp add: recordOf_def)
  have "\<forall>i. 2 \<le> i \<and> i < length arr \<and> arr ! i = [] \<longrightarrow>
      Properties (recordOf text) ! (i - 2) = []
      \<and> [] \<in> Mapping.keys (PropertyNameSet (parseLine tg text))"
  proof (intro allI impI)
    fix i
    assume i: "2 \<le> i \<and> i < length arr \<and> arr ! i = []"
    then have len: "i - 2 < length (drop 2 arr)" by auto
    from i have le: "2 \<le> length arr" and sum: "2 + (i - 2) = i" by arith+
    from le have "drop 2 arr ! (i - 2) = arr ! (2 + (i - 2))" by (rule nth_drop)
    with sum have "drop 2 arr ! (i - 2) = arr ! i" by simp
    with len i have "map capitilizeFirstLetter (drop 2 arr) ! (i - 2) = []"
      by (simp only: nth_map capitilizeFirstLetter.simps)
    then have p: "Properties (recordOf text) ! (i - 2) = []"
      by (simp add: r)
    from i have "i - 2 < length (Properties (recordOf text))" by (auto simp: r)
    with p have "[] \<in> set (Properties (recordOf text))"
      by (metis nth_mem)
    with q p show "Properties (recordOf text) ! (i - 2) = []
      \<and> [] \<in> Mapping.keys (PropertyNameSet (parseLine tg text))"
      by (simp add: parseLine_keys)
  qed
  with q r show "\<exists>tile. Definitions (parseLine tg text) = Definitions tg @ [tile]
           \<and> Symbol tile = arr ! 0
           \<and> (arr ! 1 = [] \<longrightarrow> Name tile = [])
           \<and> (\<forall>i. 2 \<le> i \<and> i < length arr \<and> arr ! i = [] \<longrightarrow>
                 Properties tile ! (i - 2) = []
                 \<and> [] \<in> Mapping.keys (PropertyNameSet (parseLine tg text)))"
    by (intro exI [of _ "recordOf text"]) (simp add: parseLine_Definitions)
qed

text \<open>The theorem at a line with two spaces after the symbol and two after the name.\<close>

theorem empty_fields_witness:
  "Split (''w'' @ sp # sp # ''Water'') = [''w'', [], ''Water'']
   \<and> Split (TrimSpace ''w  Water  nowalk'') = [''w'', [], ''Water'', [], ''nowalk'']
   \<and> Definitions (parseLine tilegen ''w  Water  nowalk'')
       = [\<lparr>Symbol = ''w'', Name = [], Properties = [''Water'', [], ''Nowalk'']\<rparr>]
   \<and> [] \<in> Mapping.keys (PropertyNameSet (parseLine tilegen ''w  Water  nowalk''))"
proof -
  let ?arr = "[''w'', [], ''Water'', [], ''nowalk'']"
  have arr: "Split (TrimSpace ''w  Water  nowalk'') = ?arr"
    by (simp add: eval_trim Split.simps Let_def eval_chars)
  have hyp: "TrimSpace ''w  Water  nowalk'' \<noteq> [] \<and> Split (TrimSpace ''w  Water  nowalk'') = ?arr
      \<and> 2 \<le> length ?arr"
    using arr by (simp add: eval_trim)
  have d: "Definitions (parseLine tilegen ''w  Water  nowalk'')
       = [\<lparr>Symbol = ''w'', Name = [], Properties = [''Water'', [], ''Nowalk'']\<rparr>]"
    by (simp add: tilegen_def eval_line)
  have s: "Split (''Water'') = [''Water'']"
    by (simp add: Split.simps sp_def)
  from empty_fields [of "''w''" "''Water''" "''w  Water  nowalk''" ?arr tilegen] hyp
  have "Split (''w'' @ sp # sp # ''Water'') = ''w'' # [] # Split ''Water''"
    and "\<exists>tile. Definitions (parseLine tilegen ''w  Water  nowalk'') = Definitions tilegen @ [tile]
           \<and> Symbol tile = ?arr ! 0
           \<and> (?arr ! 1 = [] \<longrightarrow> Name tile = [])
           \<and> (\<forall>i. 2 \<le> i \<and> i < length ?arr \<and> ?arr ! i = [] \<longrightarrow>
                 Properties tile ! (i - 2) = []
                 \<and> [] \<in> Mapping.keys (PropertyNameSet (parseLine tilegen ''w  Water  nowalk'')))"
    by (simp_all add: sp_def)
  then have "Split (''w'' @ sp # sp # ''Water'') = [''w'', [], ''Water'']"
    and "[] \<in> Mapping.keys (PropertyNameSet (parseLine tilegen ''w  Water  nowalk''))"
    using s by (auto dest: spec [of _ 3])
  with arr d show ?thesis by blast
qed

end
